theory Spec2Isabelle
  imports Main "HOL-Library.Word"
begin

unbundle bit_operations_syntax

section \<open>Schema (app/schema/item.py)\<close>

text \<open>
  \<^verbatim>\<open>class ItemBase(BaseModel): name: str; description: str; price: float\<close> and
  \<^verbatim>\<open>class Item(ItemBase): id: str\<close>. A Python float is an IEEE-754 double; the service
  never computes with a price, it only stores and returns it and the store compares it
  bit for bit, so a price is its 64-bit pattern. The field \<open>id\<close> is written \<open>id'\<close>,
  \<open>id\<close> being the identity function of HOL.
\<close>

record item_base =
  name :: string
  description :: string
  price :: "64 word"

record item = item_base +
  id' :: string

text \<open>\<^verbatim>\<open>math.isfinite\<close>: a double is an infinity or a NaN exactly when its eleven
  exponent bits are all set.\<close>

definition isfinite :: "64 word \<Rightarrow> bool" where
  "isfinite x \<longleftrightarrow> drop_bit 52 x AND 0x7FF \<noteq> 0x7FF"

section \<open>The document store\<close>

text \<open>
  A stored document carries the three fields of \<open>ItemBase\<close> and the key \<^verbatim>\<open>ID = "_id"\<close>
  of app/crud/item.py, a string. The collection named by the settings is the list of
  its documents in natural order.

  The driver (Motor over PyMongo) is not part of the repository. It is modelled by what
  its documentation says of each call the source makes. Every awaited call is a round
  trip to the server and may raise: the environment's schedule \<open>faults\<close> holds, for each
  coming round trip, the error it raises (\<open>Some e\<close>) or nothing (\<open>None\<close>); an exhausted
  schedule raises nothing. A round trip that raises leaves the collection as it was.
\<close>

record document = item_base +
  ID :: string

datatype error =
  ValueError | OverflowError | DuplicateKeyError | ConnectionFailure | OperationFailure

record db_state =
  collection :: "document list"
  faults :: "error option list"

type_synonym 'a io = "db_state \<Rightarrow> (error + 'a) \<times> db_state"

definition round_trip :: "db_state \<Rightarrow> error option \<times> db_state" where
  "round_trip db =
     (case faults db of
        [] \<Rightarrow> (None, db)
      | f # fs \<Rightarrow> (f, db\<lparr>faults := fs\<rparr>))"

text \<open>What the schedule holds for the coming round trip, and the state once a round
  trip has been made.\<close>

definition next_fault :: "db_state \<Rightarrow> error option" where
  "next_fault db = (case faults db of [] \<Rightarrow> None | f # fs \<Rightarrow> f)"

definition tick :: "db_state \<Rightarrow> db_state" where
  "tick db = db\<lparr>faults := tl (faults db)\<rparr>"

text \<open>\<^verbatim>\<open>collection.insert_one(document)\<close>: \<open>_id\<close> is unique in a collection; the
  result carries \<open>inserted_id\<close>.\<close>

definition insert_one :: "document \<Rightarrow> string io" where
  "insert_one document db =
     (case round_trip db of
        (Some e, db') \<Rightarrow> (Inl e, db')
      | (None, db') \<Rightarrow>
          if ID document \<in> set (map ID (collection db'))
          then (Inl DuplicateKeyError, db')
          else (Inr (ID document), db'\<lparr>collection := collection db' @ [document]\<rparr>))"

text \<open>\<^verbatim>\<open>collection.find_one({ID: id})\<close>: the first match in natural order, or None.\<close>

definition find_one :: "string \<Rightarrow> document option io" where
  "find_one i db =
     (case round_trip db of
        (Some e, db') \<Rightarrow> (Inl e, db')
      | (None, db') \<Rightarrow> (Inr (find (\<lambda>d. ID d = i) (collection db')), db'))"

text \<open>\<^verbatim>\<open>collection.find().skip(skip).to_list(length=limit)\<close>: building the cursor makes
  no round trip; \<open>skip\<close> raises ValueError below 0, then \<open>to_list\<close> raises ValueError for a
  length below 0. The command is encoded when the call is awaited, once a connection
  is at hand, so a fault of the round trip comes first; a skip that does not fit the
  8-byte integer of the wire format, \<open>2^63\<close> or more, then raises OverflowError and nothing
  is sent. The length is not sent: the cursor counts it off itself. Otherwise the
  result is the documents after the first \<open>skip\<close>, at most \<open>length\<close> of them.\<close>

definition find_skip_to_list :: "int \<Rightarrow> int \<Rightarrow> document list io" where
  "find_skip_to_list skip len db =
     (if skip < 0 then (Inl ValueError, db)
      else if len < 0 then (Inl ValueError, db)
      else case round_trip db of
        (Some e, db') \<Rightarrow> (Inl e, db')
      | (None, db') \<Rightarrow>
          if 2 ^ 63 \<le> skip then (Inl OverflowError, db')
          else (Inr (take (nat len) (drop (nat skip) (collection db'))), db'))"

text \<open>\<^verbatim>\<open>collection.update_one({ID: id}, {'$set': document})\<close>: the first match has the
  three fields set and keeps its \<open>_id\<close>; \<open>modified_count\<close> is 1 when that changed the
  stored document and 0 when nothing matched or the stored values were already these.\<close>

definition set_fields :: "item_base \<Rightarrow> document \<Rightarrow> document" where
  "set_fields flds d =
     d\<lparr>name := name flds, description := description flds, price := price flds\<rparr>"

fun update_first :: "string \<Rightarrow> item_base \<Rightarrow> document list \<Rightarrow> document list \<times> nat" where
  "update_first i flds [] = ([], 0)"
| "update_first i flds (d # ds) =
     (if ID d = i
      then (set_fields flds d # ds, if set_fields flds d = d then 0 else 1)
      else (case update_first i flds ds of (ds', n) \<Rightarrow> (d # ds', n)))"

definition update_one :: "string \<Rightarrow> item_base \<Rightarrow> nat io" where
  "update_one i flds db =
     (case round_trip db of
        (Some e, db') \<Rightarrow> (Inl e, db')
      | (None, db') \<Rightarrow>
          (case update_first i flds (collection db') of
             (ds', modified_count) \<Rightarrow> (Inr modified_count, db'\<lparr>collection := ds'\<rparr>)))"

text \<open>\<^verbatim>\<open>collection.delete_many({ID: id})\<close>: every match goes; the result carries
  \<open>deleted_count\<close>.\<close>

definition delete_many :: "string \<Rightarrow> nat io" where
  "delete_many i db =
     (case round_trip db of
        (Some e, db') \<Rightarrow> (Inl e, db')
      | (None, db') \<Rightarrow>
          (Inr (length (filter (\<lambda>d. ID d = i) (collection db'))),
           db'\<lparr>collection := filter (\<lambda>d. ID d \<noteq> i) (collection db')\<rparr>))"

section \<open>Identifiers: \<^verbatim>\<open>str(uuid4())\<close>\<close>

text \<open>
  \<open>uuid4\<close> draws 16 random bytes, here the argument, and stamps version 4 and the
  RFC 4122 variant on them; \<open>str\<close> prints the 128 bits as 32 lower-case hexadecimal
  digits in groups of 8, 4, 4, 4 and 12 joined by hyphens.
\<close>

definition uuid4 :: "128 word \<Rightarrow> 128 word" where
  "uuid4 rnd =
     (((rnd AND NOT (push_bit 48 0xc000)) OR push_bit 48 0x8000)
        AND NOT (push_bit 64 0xf000)) OR push_bit 76 4"

definition hex_digit :: "nat \<Rightarrow> char" where
  "hex_digit n = ''0123456789abcdef'' ! n"

definition hex32 :: "128 word \<Rightarrow> string" where
  "hex32 w = map (\<lambda>i. hex_digit (unat (drop_bit (4 * (31 - i)) w AND 0xf))) [0..<32]"

definition str_uuid :: "128 word \<Rightarrow> string" where
  "str_uuid u =
     (let h = hex32 u
      in take 8 h @ ''-'' @ take 4 (drop 8 h) @ ''-'' @ take 4 (drop 12 h) @ ''-''
         @ take 4 (drop 16 h) @ ''-'' @ drop 20 h)"

section \<open>Repository (app/crud/item.py)\<close>

text \<open>\<^verbatim>\<open>Item(id=d[ID], **d)\<close>: the model ignores the extra key \<open>_id\<close>.\<close>

definition Item :: "string \<Rightarrow> 'a item_base_scheme \<Rightarrow> item" where
  "Item i d = \<lparr>name = name d, description = description d, price = price d, id' = i\<rparr>"

text \<open>\<open>create_item\<close>: \<^verbatim>\<open>document = vars(item); document[ID] = str(uuid4())\<close>, then
  \<open>insert_one\<close> and \<^verbatim>\<open>Item(id=result.inserted_id, **document)\<close>.\<close>

definition crud_item_create_item :: "128 word \<Rightarrow> item_base \<Rightarrow> item io" where
  "crud_item_create_item rnd item db =
     (let document = \<lparr>name = name item, description = description item,
                       price = price item, ID = str_uuid (uuid4 rnd)\<rparr>
      in case insert_one document db of
           (Inl e, db') \<Rightarrow> (Inl e, db')
         | (Inr inserted_id, db') \<Rightarrow> (Inr (Item inserted_id document), db'))"

definition crud_item_get_all_items :: "int \<Rightarrow> int \<Rightarrow> item list io" where
  "crud_item_get_all_items skip limit db =
     (case find_skip_to_list skip limit db of
        (Inl e, db') \<Rightarrow> (Inl e, db')
      | (Inr results, db') \<Rightarrow> (Inr (map (\<lambda>result. Item (ID result) result) results), db'))"

definition crud_item_read_item :: "string \<Rightarrow> item option io" where
  "crud_item_read_item i db =
     (case find_one i db of
        (Inl e, db') \<Rightarrow> (Inl e, db')
      | (Inr item, db') \<Rightarrow>
          (Inr (case item of None \<Rightarrow> None | Some d \<Rightarrow> Some (Item (ID d) d)), db'))"

definition crud_item_update_item :: "string \<Rightarrow> item_base \<Rightarrow> item option io" where
  "crud_item_update_item i item db =
     (case update_one i item db of
        (Inl e, db') \<Rightarrow> (Inl e, db')
      | (Inr modified_count, db') \<Rightarrow>
          if modified_count = 0 then (Inr None, db')
          else (Inr (Some (Item i item)), db'))"

definition crud_item_delete_item :: "string \<Rightarrow> nat io" where
  "crud_item_delete_item i db = delete_many i db"

section \<open>Handlers (app/api/api_v1/endpoints/item.py)\<close>

text \<open>
  A handler returns either a bare \<^verbatim>\<open>Response(status_code=...)\<close>, which the framework
  sends as it is, or a value, which the framework renders as the JSON body under the
  status code of the route's decorator. A response is its status code and its body, if
  any. Rendering (\<^verbatim>\<open>json.dumps(..., allow_nan=False)\<close>) raises ValueError on a float that
  is not finite; it comes after the handler, so after whatever the handler wrote.
\<close>

abbreviation HTTP_200_OK :: nat where "HTTP_200_OK \<equiv> 200"
abbreviation HTTP_201_CREATED :: nat where "HTTP_201_CREATED \<equiv> 201"
abbreviation HTTP_204_NO_CONTENT :: nat where "HTTP_204_NO_CONTENT \<equiv> 204"
abbreviation HTTP_304_NOT_MODIFIED :: nat where "HTTP_304_NOT_MODIFIED \<equiv> 304"
abbreviation HTTP_404_NOT_FOUND :: nat where "HTTP_404_NOT_FOUND \<equiv> 404"

datatype 'a returned = Response nat | Returned 'a

definition route :: "nat \<Rightarrow> ('a \<Rightarrow> bool) \<Rightarrow> 'a returned io \<Rightarrow> (nat \<times> 'a option) io" where
  "route status_code renders handler db =
     (case handler db of
        (Inl e, db') \<Rightarrow> (Inl e, db')
      | (Inr (Response s), db') \<Rightarrow> (Inr (s, None), db')
      | (Inr (Returned v), db') \<Rightarrow>
          if renders v then (Inr (status_code, Some v), db') else (Inl ValueError, db'))"

definition renders_item :: "item \<Rightarrow> bool" where
  "renders_item it = isfinite (price it)"

definition renders_items :: "item list \<Rightarrow> bool" where
  "renders_items its = list_all renders_item its"

text \<open>app/main.py registers no exception handler: an exception that leaves a handler or
  the rendering is answered by the server with 500.\<close>

abbreviation HTTP_500_INTERNAL_SERVER_ERROR :: nat where
  "HTTP_500_INTERNAL_SERVER_ERROR \<equiv> 500"

definition status_at_boundary :: "error + nat \<times> 'a option \<Rightarrow> nat" where
  "status_at_boundary outcome =
     (case outcome of Inl e \<Rightarrow> HTTP_500_INTERNAL_SERVER_ERROR | Inr (s, b) \<Rightarrow> s)"

definition get_item_handler :: "string \<Rightarrow> item returned io" where
  "get_item_handler item_id db =
     (case crud_item_read_item item_id db of
        (Inl e, db') \<Rightarrow> (Inl e, db')
      | (Inr None, db') \<Rightarrow> (Inr (Response HTTP_404_NOT_FOUND), db')
      | (Inr (Some item), db') \<Rightarrow> (Inr (Returned item), db'))"

definition get_all_items_handler :: "int \<Rightarrow> int \<Rightarrow> item list returned io" where
  "get_all_items_handler skip limit db =
     (case crud_item_get_all_items skip limit db of
        (Inl e, db') \<Rightarrow> (Inl e, db')
      | (Inr items, db') \<Rightarrow> (Inr (Returned items), db'))"

definition post_item_handler :: "128 word \<Rightarrow> item_base \<Rightarrow> item returned io" where
  "post_item_handler rnd item db =
     (case crud_item_create_item rnd item db of
        (Inl e, db') \<Rightarrow> (Inl e, db')
      | (Inr item', db') \<Rightarrow> (Inr (Returned item'), db'))"

definition update_item_handler :: "string \<Rightarrow> item_base \<Rightarrow> item returned io" where
  "update_item_handler item_id item db =
     (case crud_item_read_item item_id db of
        (Inl e, db1) \<Rightarrow> (Inl e, db1)
      | (Inr None, db1) \<Rightarrow> (Inr (Response HTTP_404_NOT_FOUND), db1)
      | (Inr (Some db_item), db1) \<Rightarrow>
          (case crud_item_update_item item_id item db1 of
             (Inl e, db2) \<Rightarrow> (Inl e, db2)
           | (Inr None, db2) \<Rightarrow> (Inr (Response HTTP_304_NOT_MODIFIED), db2)
           | (Inr (Some item'), db2) \<Rightarrow> (Inr (Returned item'), db2)))"

definition delete_item_handler :: "string \<Rightarrow> unit returned io" where
  "delete_item_handler item_id db =
     (case crud_item_delete_item item_id db of
        (Inl e, db') \<Rightarrow> (Inl e, db')
      | (Inr delete_count, db') \<Rightarrow>
          if delete_count = 0 then (Inr (Response HTTP_404_NOT_FOUND), db')
          else (Inr (Response HTTP_204_NO_CONTENT), db'))"

text \<open>The routes, with the decorators' status codes and the defaults of the query
  parameters \<^verbatim>\<open>skip: int = 0, limit: int = 100\<close>.\<close>

definition with_default :: "'a \<Rightarrow> 'a option \<Rightarrow> 'a" where
  "with_default d q = (case q of None \<Rightarrow> d | Some v \<Rightarrow> v)"

definition get_item :: "string \<Rightarrow> (nat \<times> item option) io" where
  "get_item item_id = route HTTP_200_OK renders_item (get_item_handler item_id)"

definition get_all_items :: "int option \<Rightarrow> int option \<Rightarrow> (nat \<times> item list option) io" where
  "get_all_items skip limit =
     route HTTP_200_OK renders_items
       (get_all_items_handler (with_default 0 skip) (with_default 100 limit))"

definition post_item :: "128 word \<Rightarrow> item_base \<Rightarrow> (nat \<times> item option) io" where
  "post_item rnd item = route HTTP_201_CREATED renders_item (post_item_handler rnd item)"

definition update_item :: "string \<Rightarrow> item_base \<Rightarrow> (nat \<times> item option) io" where
  "update_item item_id item =
     route HTTP_200_OK renders_item (update_item_handler item_id item)"

definition delete_item :: "string \<Rightarrow> (nat \<times> unit option) io" where
  "delete_item item_id = route HTTP_200_OK (\<lambda>u. True) (delete_item_handler item_id)"

section \<open>The example of the specification\<close>

text \<open>A pen at 1.5 (\<open>0x3FF8000000000000\<close> as a double), the same pen at 2.0 and at
  infinity (\<open>0x7FF0000000000000\<close>), a collection that holds the pen under the key \<open>a1\<close>,
  one that holds it at infinity, and schedules that fail the first, the second or the
  third round trip.\<close>

definition pen :: item_base where
  "pen = \<lparr>name = ''pen'', description = ''blue pen'', price = 0x3FF8000000000000\<rparr>"

definition pen2 :: item_base where
  "pen2 = \<lparr>name = ''pen'', description = ''blue pen'', price = 0x4000000000000000\<rparr>"

definition pen_doc :: document where
  "pen_doc = \<lparr>name = ''pen'', description = ''blue pen'', price = 0x3FF8000000000000,
              ID = ''a1''\<rparr>"

definition pen_inf :: item_base where
  "pen_inf = \<lparr>name = ''pen'', description = ''blue pen'', price = 0x7FF0000000000000\<rparr>"

definition db_inf :: db_state where
  "db_inf = \<lparr>collection = [pen_doc\<lparr>price := 0x7FF0000000000000\<rparr>], faults = []\<rparr>"

definition db_pen :: db_state where
  "db_pen = \<lparr>collection = [pen_doc], faults = []\<rparr>"

definition db_down :: db_state where
  "db_down = \<lparr>collection = [pen_doc], faults = [Some ConnectionFailure]\<rparr>"

definition db_flaky :: db_state where
  "db_flaky = \<lparr>collection = [pen_doc], faults = [None, Some OperationFailure]\<rparr>"

definition db_late :: db_state where
  "db_late = \<lparr>collection = [pen_doc], faults = [None, None, Some OperationFailure]\<rparr>"

definition db_zero :: db_state where
  "db_zero =
     \<lparr>collection = [pen_doc\<lparr>ID := ''00000000-0000-4000-8000-000000000000''\<rparr>],
      faults = []\<rparr>"

section \<open>What each call does, by the schedule\<close>

lemma round_trip_eq: "round_trip db = (next_fault db, tick db)"
  by (cases "faults db") (simp_all add: round_trip_def next_fault_def tick_def)

lemma collection_tick [simp]: "collection (tick db) = collection db"
  by (simp add: tick_def)

lemma faults_tick [simp]: "faults (tick db) = tl (faults db)"
  by (simp add: tick_def)

lemma find_None_iff_ID: "find (\<lambda>d. ID d = i) ds = None \<longleftrightarrow> i \<notin> ID ` set ds"
  by (auto simp: find_None_iff)

lemma find_Some_ID: "find (\<lambda>d. ID d = i) ds = Some d \<Longrightarrow> d \<in> set ds \<and> ID d = i"
  by (auto simp: find_Some_iff)


lemma find_one_eq:
  "find_one i db =
     (case next_fault db of
        Some e \<Rightarrow> (Inl e, tick db)
      | None \<Rightarrow> (Inr (find (\<lambda>d. ID d = i) (collection db)), tick db))"
  by (simp add: find_one_def round_trip_eq split: option.splits)

lemma read_item_eq:
  "crud_item_read_item i db =
     (case next_fault db of
        Some e \<Rightarrow> (Inl e, tick db)
      | None \<Rightarrow>
          (Inr (map_option (\<lambda>d. Item (ID d) d) (find (\<lambda>d. ID d = i) (collection db))),
           tick db))"
  by (simp add: crud_item_read_item_def find_one_eq split: option.splits)

lemma get_item_eq:
  "get_item i db =
     (case next_fault db of
        Some e \<Rightarrow> (Inl e, tick db)
      | None \<Rightarrow>
          (case find (\<lambda>d. ID d = i) (collection db) of
             None \<Rightarrow> (Inr (HTTP_404_NOT_FOUND, None), tick db)
           | Some d \<Rightarrow>
               (if isfinite (price d) then Inr (HTTP_200_OK, Some (Item i d))
                else Inl ValueError, tick db)))"
  by (auto simp: get_item_def route_def get_item_handler_def read_item_eq renders_item_def
      Item_def split: option.splits dest: find_Some_ID)




lemma str_uuid_zero: "str_uuid (uuid4 0) = ''00000000-0000-4000-8000-000000000000''"
  by code_simp


lemma insert_one_eq:
  "insert_one document db =
     (case next_fault db of
        Some e \<Rightarrow> (Inl e, tick db)
      | None \<Rightarrow>
          if ID document \<in> ID ` set (collection db)
          then (Inl DuplicateKeyError, tick db)
          else (Inr (ID document), (tick db)\<lparr>collection := collection db @ [document]\<rparr>))"
  by (simp add: insert_one_def round_trip_eq split: option.splits)

lemma post_item_eq:
  "post_item rnd item db =
     (case next_fault db of
        Some e \<Rightarrow> (Inl e, tick db)
      | None \<Rightarrow>
          if str_uuid (uuid4 rnd) \<in> ID ` set (collection db)
          then (Inl DuplicateKeyError, tick db)
          else (if isfinite (price item)
                then Inr (HTTP_201_CREATED, Some (Item (str_uuid (uuid4 rnd)) item))
                else Inl ValueError,
                (tick db)\<lparr>collection := collection db
                   @ [\<lparr>name = name item, description = description item,
                        price = price item, ID = str_uuid (uuid4 rnd)\<rparr>]\<rparr>))"
  by (simp add: post_item_def route_def post_item_handler_def crud_item_create_item_def
      insert_one_eq Let_def Item_def renders_item_def split: option.splits)

lemma find_skip_to_list_eq:
  "find_skip_to_list skip len db =
     (if skip < 0 \<or> len < 0 then (Inl ValueError, db)
      else case next_fault db of
             Some e \<Rightarrow> (Inl e, tick db)
           | None \<Rightarrow>
               if 2 ^ 63 \<le> skip then (Inl OverflowError, tick db)
               else (Inr (take (nat len) (drop (nat skip) (collection db))), tick db))"
  by (simp add: find_skip_to_list_def round_trip_eq split: option.splits)

lemma get_all_items_eq:
  "get_all_items skip limit db =
     (if with_default 0 skip < 0 \<or> with_default 100 limit < 0 then (Inl ValueError, db)
      else case next_fault db of
             Some e \<Rightarrow> (Inl e, tick db)
           | None \<Rightarrow>
               if 2 ^ 63 \<le> with_default 0 skip then (Inl OverflowError, tick db)
               else if list_all (\<lambda>d. isfinite (price d))
                         (take (nat (with_default 100 limit))
                            (drop (nat (with_default 0 skip)) (collection db)))
               then (Inr (HTTP_200_OK,
                          Some (map (\<lambda>d. Item (ID d) d)
                                 (take (nat (with_default 100 limit))
                                    (drop (nat (with_default 0 skip)) (collection db))))),
                     tick db)
               else (Inl ValueError, tick db))"
  by (simp add: get_all_items_def route_def get_all_items_handler_def
      crud_item_get_all_items_def find_skip_to_list_eq renders_items_def renders_item_def
      Item_def list_all_iff split: option.splits)

lemma delete_many_eq:
  "delete_many i db =
     (case next_fault db of
        Some e \<Rightarrow> (Inl e, tick db)
      | None \<Rightarrow>
          (Inr (length (filter (\<lambda>d. ID d = i) (collection db))),
           (tick db)\<lparr>collection := filter (\<lambda>d. ID d \<noteq> i) (collection db)\<rparr>))"
  by (simp add: delete_many_def round_trip_eq split: option.splits)

lemma delete_item_eq:
  "delete_item i db =
     (case next_fault db of
        Some e \<Rightarrow> (Inl e, tick db)
      | None \<Rightarrow>
          (Inr (if length (filter (\<lambda>d. ID d = i) (collection db)) = 0
                then HTTP_404_NOT_FOUND else HTTP_204_NO_CONTENT, None),
           (tick db)\<lparr>collection := filter (\<lambda>d. ID d \<noteq> i) (collection db)\<rparr>))"
  by (simp add: delete_item_def route_def delete_item_handler_def crud_item_delete_item_def
      delete_many_eq split: option.splits)

lemma update_first_ids: "map ID (fst (update_first i flds ds)) = map ID ds"
  by (induction ds) (auto simp: set_fields_def split: prod.splits)

lemma update_first_find:
  "find (\<lambda>d. ID d = i) ds = Some d \<Longrightarrow>
   find (\<lambda>d. ID d = i) (fst (update_first i flds ds)) = Some (set_fields flds d)"
  by (induction ds) (auto simp: set_fields_def split: prod.splits)

lemma update_first_count:
  "find (\<lambda>d. ID d = i) ds = Some d \<Longrightarrow>
   snd (update_first i flds ds) = (if set_fields flds d = d then 0 else 1)"
  by (induction ds) (auto split: prod.splits)

lemma update_one_eq:
  "update_one i flds db =
     (case next_fault db of
        Some e \<Rightarrow> (Inl e, tick db)
      | None \<Rightarrow>
          (Inr (snd (update_first i flds (collection db))),
           (tick db)\<lparr>collection := fst (update_first i flds (collection db))\<rparr>))"
  by (simp add: update_one_def round_trip_eq split: option.splits prod.splits)

lemma crud_update_item_eq:
  "crud_item_update_item i item db =
     (case next_fault db of
        Some e \<Rightarrow> (Inl e, tick db)
      | None \<Rightarrow>
          (Inr (if snd (update_first i item (collection db)) = 0 then None
                else Some (Item i item)),
           (tick db)\<lparr>collection := fst (update_first i item (collection db))\<rparr>))"
  by (simp add: crud_item_update_item_def update_one_eq split: option.splits)

lemma update_item_eq:
  "update_item i item db =
     (case next_fault db of
        Some e \<Rightarrow> (Inl e, tick db)
      | None \<Rightarrow>
          (case find (\<lambda>d. ID d = i) (collection db) of
             None \<Rightarrow> (Inr (HTTP_404_NOT_FOUND, None), tick db)
           | Some d \<Rightarrow>
               (case next_fault (tick db) of
                  Some e \<Rightarrow> (Inl e, tick (tick db))
                | None \<Rightarrow>
                    (if snd (update_first i item (collection db)) = 0
                     then Inr (HTTP_304_NOT_MODIFIED, None)
                     else if isfinite (price item)
                     then Inr (HTTP_200_OK, Some (Item i item))
                     else Inl ValueError,
                     (tick (tick db))
                       \<lparr>collection := fst (update_first i item (collection db))\<rparr>))))"
  by (simp add: update_item_def route_def update_item_handler_def read_item_eq
      crud_update_item_eq renders_item_def Item_def split: option.splits)

text \<open>The definitions of the repository and of the handlers, and what the calls of the
  driver come to, for the proofs that go through the code itself.\<close>

lemmas repository_defs =
  Item_def crud_item_create_item_def crud_item_get_all_items_def crud_item_read_item_def
  crud_item_update_item_def crud_item_delete_item_def

lemmas handler_defs =
  route_def renders_item_def renders_items_def get_item_handler_def
  get_all_items_handler_def post_item_handler_def update_item_handler_def
  delete_item_handler_def get_item_def get_all_items_def post_item_def update_item_def
  delete_item_def

lemmas driver_eqs =
  find_one_def insert_one_def find_skip_to_list_def update_one_def delete_many_def
  round_trip_eq

lemma next_fault_db_pen: "next_fault db_pen = None"
  by (simp add: next_fault_def db_pen_def)

lemma collection_db_pen: "collection db_pen = [pen_doc]"
  by (simp add: db_pen_def)

lemma ID_pen_doc: "ID pen_doc = ''a1''"
  by (simp add: pen_doc_def)

lemma isfinite_pen: "isfinite 0x3FF8000000000000"
  by (simp add: isfinite_def)

lemma isfinite_pen2: "isfinite 0x4000000000000000"
  by (simp add: isfinite_def)

section \<open>Get one\<close>

text \<open>
  C4, as stated, fails: a get-one of an id whose stored price is not finite finds the
  item and then answers no 200; rendering the body raises ValueError, which leaves the
  request as an unhandled error (500).
\<close>

theorem get_item_inf_counterexample:
  "next_fault db_inf = None
   \<and> ''a1'' \<in> ID ` set (collection db_inf)
   \<and> fst (get_item ''a1'' db_inf) = Inl ValueError
   \<and> status_at_boundary (fst (get_item ''a1'' db_inf)) = HTTP_500_INTERNAL_SERVER_ERROR"
  by (simp add: handler_defs repository_defs driver_eqs next_fault_def db_inf_def
      pen_doc_def isfinite_def status_at_boundary_def)

text \<open>
  C4, amended. A get-one request that reaches the store (its round trip raises nothing):
  when the collection holds a document of that id, the lookup finds one, and if its
  price is finite the handler returns 200 with that item, its name, description and
  price under the id asked for; if the price is not finite the request ends in
  ValueError. When the collection holds no document of that id the handler returns 404
  with no body.
\<close>

theorem get_item_found_or_404:
  assumes ok: "next_fault db = None"
  shows "(item_id \<in> ID ` set (collection db) \<longrightarrow>
            (\<exists>d \<in> set (collection db).
               ID d = item_id
             \<and> find (\<lambda>d. ID d = item_id) (collection db) = Some d
             \<and> (isfinite (price d) \<longrightarrow>
                  fst (get_item item_id db) =
                    Inr (HTTP_200_OK,
                         Some \<lparr>name = name d, description = description d,
                               price = price d, id' = item_id\<rparr>))
             \<and> (\<not> isfinite (price d) \<longrightarrow>
                  fst (get_item item_id db) = Inl ValueError)))
       \<and> (item_id \<notin> ID ` set (collection db) \<longrightarrow>
            fst (get_item item_id db) = Inr (HTTP_404_NOT_FOUND, None))"
proof -
  have code: "fst (get_item item_id db) =
      (case find (\<lambda>d. ID d = item_id) (collection db) of
         None \<Rightarrow> Inr (HTTP_404_NOT_FOUND, None)
       | Some d \<Rightarrow>
           if isfinite (price d)
           then Inr (HTTP_200_OK,
                     Some \<lparr>name = name d, description = description d,
                           price = price d, id' = ID d\<rparr>)
           else Inl ValueError)"
    using ok by (simp add: handler_defs repository_defs driver_eqs split: option.splits)
  show ?thesis
  proof (cases "find (\<lambda>d. ID d = item_id) (collection db)")
    case None
    then have "item_id \<notin> ID ` set (collection db)"
      by (simp add: find_None_iff_ID)
    with None code show ?thesis
      by simp
  next
    case (Some d)
    then have mem: "d \<in> set (collection db)" and key: "ID d = item_id"
      using find_Some_ID by fastforce+
    then have held: "item_id \<in> ID ` set (collection db)"
      by auto
    have fin: "isfinite (price d) \<longrightarrow>
        fst (get_item item_id db) =
          Inr (HTTP_200_OK,
               Some \<lparr>name = name d, description = description d, price = price d,
                     id' = item_id\<rparr>)"
      using code Some key by simp
    have inf: "\<not> isfinite (price d) \<longrightarrow> fst (get_item item_id db) = Inl ValueError"
      using code Some by simp
    from mem key Some fin inf held show ?thesis
      by blast
  qed
qed

theorem get_item_found_or_404_witness:
  "next_fault db_pen = None
   \<and> fst (get_item ''a1'' db_pen) =
       Inr (HTTP_200_OK,
            Some \<lparr>name = ''pen'', description = ''blue pen'', price = 0x3FF8000000000000,
                  id' = ''a1''\<rparr>)
   \<and> fst (get_item ''zz'' db_pen) = Inr (HTTP_404_NOT_FOUND, None)"
  using get_item_found_or_404 [OF next_fault_db_pen, of "''a1''"]
    get_item_found_or_404 [OF next_fault_db_pen, of "''zz''"]
  by (simp add: next_fault_db_pen collection_db_pen ID_pen_doc)
     (simp add: pen_doc_def isfinite_pen)

section \<open>Create, then get\<close>




section \<open>Get all\<close>




text \<open>
  C7, as stated, fails: the handler takes a skip of -1 and hands it on. What it gives
  back is the ValueError of the cursor, raised in the driver and caught nowhere, so the
  request ends as an unhandled error (500) and is not refused as invalid input.
\<close>

theorem get_all_items_negative_counterexample:
  "with_default 0 (Some (- 1)) < (0::int)
   \<and> find_skip_to_list (- 1) 100 db_pen = (Inl ValueError, db_pen)
   \<and> crud_item_get_all_items (- 1) 100 db_pen = (Inl ValueError, db_pen)
   \<and> get_all_items_handler (- 1) 100 db_pen = (Inl ValueError, db_pen)
   \<and> get_all_items (Some (- 1)) None db_pen = (Inl ValueError, db_pen)
   \<and> status_at_boundary (fst (get_all_items (Some (- 1)) None db_pen)) =
       HTTP_500_INTERNAL_SERVER_ERROR"
  by (simp add: get_all_items_def route_def get_all_items_handler_def
      crud_item_get_all_items_def find_skip_to_list_def with_default_def
      status_at_boundary_def)

text \<open>
  C7, amended. The handler accepts any integers for skip and limit, its signature
  declaring no bound, and with the repository hands them unexamined to the cursor:
  what the handler returns is what the cursor returns, an error as it is and a list of
  documents as the list of their items. The cursor raises ValueError for a skip or a
  limit below 0, before any round trip; nothing catches it, so such a request ends as
  an unhandled error (500) with no response of the handler. Hence every get-all
  request that is answered carries a skip and a limit that are not below 0.
\<close>

theorem get_all_items_negative_unhandled:
  shows "get_all_items_handler s l db =
           (case find_skip_to_list s l db of
              (Inl e, db') \<Rightarrow> (Inl e, db')
            | (Inr results, db') \<Rightarrow>
                (Inr (Returned (map (\<lambda>d. \<lparr>name = name d, description = description d,
                                           price = price d, id' = ID d\<rparr>) results)),
                 db'))
       \<and> (s < 0 \<or> l < 0 \<longrightarrow> find_skip_to_list s l db = (Inl ValueError, db))
       \<and> (with_default 0 skip < 0 \<or> with_default 100 limit < 0 \<longrightarrow>
            get_all_items skip limit db = (Inl ValueError, db)
          \<and> status_at_boundary (fst (get_all_items skip limit db)) =
              HTTP_500_INTERNAL_SERVER_ERROR)
       \<and> (fst (get_all_items skip limit db) = Inr response \<longrightarrow>
            0 \<le> with_default 0 skip \<and> 0 \<le> with_default 100 limit)"
proof (intro conjI impI)
  show "get_all_items_handler s l db =
      (case find_skip_to_list s l db of
         (Inl e, db') \<Rightarrow> (Inl e, db')
       | (Inr results, db') \<Rightarrow>
           (Inr (Returned (map (\<lambda>d. \<lparr>name = name d, description = description d,
                                      price = price d, id' = ID d\<rparr>) results)),
            db'))"
    by (simp add: get_all_items_handler_def crud_item_get_all_items_def Item_def
        split: prod.splits sum.splits)
next
  assume "s < 0 \<or> l < 0"
  then show "find_skip_to_list s l db = (Inl ValueError, db)"
    by (auto simp: find_skip_to_list_def)
next
  assume neg: "with_default 0 skip < 0 \<or> with_default 100 limit < 0"
  then show "get_all_items skip limit db = (Inl ValueError, db)"
    by (auto simp: handler_defs repository_defs driver_eqs)
  with neg show "status_at_boundary (fst (get_all_items skip limit db)) =
      HTTP_500_INTERNAL_SERVER_ERROR"
    by (simp add: status_at_boundary_def)
next
  assume "fst (get_all_items skip limit db) = Inr response"
  then show "0 \<le> with_default 0 skip" and "0 \<le> with_default 100 limit"
    by (auto simp: handler_defs repository_defs driver_eqs
        split: if_splits option.splits)
qed

theorem get_all_items_negative_unhandled_witness:
  "find_skip_to_list 0 (- 1) db_pen = (Inl ValueError, db_pen)
   \<and> get_all_items_handler 0 (- 1) db_pen = (Inl ValueError, db_pen)
   \<and> with_default 100 (Some (- 1)) < (0::int)
   \<and> get_all_items None (Some (- 1)) db_pen = (Inl ValueError, db_pen)
   \<and> status_at_boundary (fst (get_all_items None (Some (- 1)) db_pen)) =
       HTTP_500_INTERNAL_SERVER_ERROR
   \<and> fst (get_all_items None None db_pen) =
       Inr (HTTP_200_OK,
            Some [\<lparr>name = ''pen'', description = ''blue pen'', price = 0x3FF8000000000000,
                   id' = ''a1''\<rparr>])
   \<and> (0::int) \<le> with_default 0 None \<and> (0::int) \<le> with_default 100 None"
proof -
  have answered: "fst (get_all_items None None db_pen) =
      Inr (HTTP_200_OK,
           Some [\<lparr>name = ''pen'', description = ''blue pen'', price = 0x3FF8000000000000,
                  id' = ''a1''\<rparr>])"
    by (simp add: handler_defs repository_defs driver_eqs with_default_def
        next_fault_db_pen collection_db_pen)
       (simp add: pen_doc_def isfinite_pen)
  have neg: "with_default 100 (Some (- 1)) < (0::int)"
    by (simp add: with_default_def)
  note refused = get_all_items_negative_unhandled
    [where s = 0 and l = "- 1" and db = db_pen and skip = None
       and limit = "Some (- 1)" and response = "(HTTP_200_OK, None)"]
  note served = get_all_items_negative_unhandled
    [where s = 0 and l = 0 and db = db_pen and skip = None and limit = None
       and response = "(HTTP_200_OK,
          Some [\<lparr>name = ''pen'', description = ''blue pen'',
                 price = 0x3FF8000000000000, id' = ''a1''\<rparr>])"]
  have cursor: "find_skip_to_list 0 (- 1) db_pen = (Inl ValueError, db_pen)"
    using refused by simp
  have handler: "get_all_items_handler 0 (- 1) db_pen = (Inl ValueError, db_pen)"
    using refused cursor by simp
  have route: "get_all_items None (Some (- 1)) db_pen = (Inl ValueError, db_pen)"
    and status: "status_at_boundary (fst (get_all_items None (Some (- 1)) db_pen)) =
      HTTP_500_INTERNAL_SERVER_ERROR"
    using refused neg by blast+
  have bounds: "(0::int) \<le> with_default 0 None \<and> (0::int) \<le> with_default 100 None"
    using served answered by blast
  show ?thesis
    by (intro conjI cursor handler neg route status answered
        conjunct1 [OF bounds] conjunct2 [OF bounds])
qed

section \<open>Delete\<close>

text \<open>
  C3. A delete request whose round trip raises nothing removes every document of that
  id and keeps the others. The handler answers 404 exactly when the store's count of
  deleted documents is 0 and 204 otherwise. After a 204, a get-by-id of that id (its
  round trip raising nothing) answers 404.
\<close>

theorem delete_item_404_or_204:
  assumes ok: "next_fault db = None"
    and del: "delete_item item_id db = (r, db')"
  shows "collection db' = filter (\<lambda>d. ID d \<noteq> item_id) (collection db)
       \<and> item_id \<notin> ID ` set (collection db')
       \<and> (\<exists>deleted_count.
             delete_many item_id db = (Inr deleted_count, db')
           \<and> deleted_count = length (filter (\<lambda>d. ID d = item_id) (collection db))
           \<and> r = Inr (if deleted_count = 0 then HTTP_404_NOT_FOUND
                       else HTTP_204_NO_CONTENT, None))
       \<and> (r = Inr (HTTP_204_NO_CONTENT, None) \<and> next_fault db' = None \<longrightarrow>
            fst (get_item item_id db') = Inr (HTTP_404_NOT_FOUND, None))"
proof -
  let ?rest = "filter (\<lambda>d. ID d \<noteq> item_id) (collection db)"
  let ?n = "length (filter (\<lambda>d. ID d = item_id) (collection db))"
  from ok del have db': "db' = (tick db)\<lparr>collection := ?rest\<rparr>"
    and r: "r = Inr (if ?n = 0 then HTTP_404_NOT_FOUND else HTTP_204_NO_CONTENT, None)"
    by (simp_all add: delete_item_eq)
  have coll: "collection db' = ?rest"
    by (simp add: db')
  have gone: "item_id \<notin> ID ` set (collection db')"
    by (auto simp: coll)
  have many: "delete_many item_id db = (Inr ?n, db')"
    using ok by (simp add: delete_many_eq db')
  have "find (\<lambda>d. ID d = item_id) (collection db') = None"
    using gone by (simp add: find_None_iff_ID)
  then have get: "next_fault db' = None \<longrightarrow>
      fst (get_item item_id db') = Inr (HTTP_404_NOT_FOUND, None)"
    by (simp add: get_item_eq)
  from coll gone many r get show ?thesis
    by blast
qed

theorem delete_item_404_or_204_witness:
  "next_fault db_pen = None
   \<and> delete_item ''a1'' db_pen =
       (Inr (HTTP_204_NO_CONTENT, None), \<lparr>collection = [], faults = []\<rparr>)
   \<and> delete_item ''zz'' db_pen = (Inr (HTTP_404_NOT_FOUND, None), db_pen)
   \<and> delete_many ''a1'' db_pen = (Inr 1, \<lparr>collection = [], faults = []\<rparr>)
   \<and> delete_many ''zz'' db_pen = (Inr 0, db_pen)
   \<and> fst (get_item ''a1'' \<lparr>collection = [], faults = []\<rparr>) =
       Inr (HTTP_404_NOT_FOUND, None)"
proof -
  have known: "delete_item ''a1'' db_pen =
      (Inr (HTTP_204_NO_CONTENT, None), \<lparr>collection = [], faults = []\<rparr>)"
    by (simp add: delete_item_eq next_fault_db_pen collection_db_pen ID_pen_doc tick_def)
       (simp add: db_pen_def)
  have unknown: "delete_item ''zz'' db_pen = (Inr (HTTP_404_NOT_FOUND, None), db_pen)"
    by (simp add: delete_item_eq next_fault_db_pen collection_db_pen ID_pen_doc tick_def)
       (simp add: db_pen_def)
  have idle: "next_fault \<lparr>collection = [], faults = []\<rparr> = None"
    by (simp add: next_fault_def)
  show ?thesis
    using known unknown
      delete_item_404_or_204 [OF next_fault_db_pen known]
      delete_item_404_or_204 [OF next_fault_db_pen unknown]
    by (simp add: next_fault_db_pen idle collection_db_pen ID_pen_doc)
qed

section \<open>Update\<close>

lemma next_fault_tick_db_pen: "next_fault (tick db_pen) = None"
  by (simp add: next_fault_def tick_def db_pen_def)

lemma update_one_pen:
  "update_one ''a1'' pen (tick db_pen) = (Inr 0, db_pen)"
  by (simp add: update_one_eq next_fault_tick_db_pen collection_db_pen ID_pen_doc)
     (simp add: tick_def db_pen_def set_fields_def pen_def pen_doc_def)

lemma update_one_pen2:
  "update_one ''a1'' pen2 (tick db_pen) =
     (Inr 1, \<lparr>collection = [pen_doc\<lparr>price := 0x4000000000000000\<rparr>], faults = []\<rparr>)"
  by (simp add: update_one_eq next_fault_tick_db_pen collection_db_pen ID_pen_doc)
     (simp add: tick_def db_pen_def set_fields_def pen2_def pen_doc_def)

text \<open>
  C2, as stated, fails: an update with a price that is not finite finds the item, the
  store reports one modified document, and the handler's item is then not answered
  with 200; rendering the body raises ValueError, after the write, which leaves the
  request as an unhandled error (500).
\<close>

theorem update_item_inf_counterexample:
  "next_fault db_pen = None
   \<and> ''a1'' \<in> ID ` set (collection db_pen)
   \<and> update_one ''a1'' pen_inf (tick db_pen) =
       (Inr 1, \<lparr>collection = [pen_doc\<lparr>price := 0x7FF0000000000000\<rparr>], faults = []\<rparr>)
   \<and> update_item ''a1'' pen_inf db_pen =
       (Inl ValueError,
        \<lparr>collection = [pen_doc\<lparr>price := 0x7FF0000000000000\<rparr>], faults = []\<rparr>)
   \<and> status_at_boundary (fst (update_item ''a1'' pen_inf db_pen)) =
       HTTP_500_INTERNAL_SERVER_ERROR"
  by (simp add: handler_defs repository_defs driver_eqs next_fault_def tick_def
      db_pen_def pen_doc_def pen_inf_def set_fields_def isfinite_def
      status_at_boundary_def)

text \<open>
  C2, amended. An update request whose first round trip, the lookup, raises nothing:
  when the collection holds no document of that id the handler answers 404; when it
  holds one, the answer follows the store's \<open>modified_count\<close> for the write, 304 with no
  body when the count is 0, and otherwise, for a finite price, 200 with the updated
  item: the id of the path with the name, description and price of the request, which
  are then also what the store holds under that id. For a price that is not finite the
  write is made all the same and the request ends in ValueError.
\<close>

theorem update_item_404_304_200:
  assumes ok: "next_fault db = None"
  shows "(item_id \<notin> ID ` set (collection db) \<longrightarrow>
            fst (update_item item_id item db) = Inr (HTTP_404_NOT_FOUND, None))
       \<and> (item_id \<in> ID ` set (collection db) \<longrightarrow>
            (\<forall>modified_count db2.
               update_one item_id item (tick db) = (Inr modified_count, db2) \<longrightarrow>
               (modified_count = 0 \<longrightarrow>
                  update_item item_id item db = (Inr (HTTP_304_NOT_MODIFIED, None), db2))
             \<and> (modified_count \<noteq> 0 \<longrightarrow>
                  (isfinite (price item) \<longrightarrow>
                     update_item item_id item db =
                       (Inr (HTTP_200_OK,
                             Some \<lparr>name = name item, description = description item,
                                   price = price item, id' = item_id\<rparr>),
                        db2))
                \<and> (\<not> isfinite (price item) \<longrightarrow>
                     update_item item_id item db = (Inl ValueError, db2))
                \<and> find (\<lambda>d. ID d = item_id) (collection db2) =
                    Some \<lparr>name = name item, description = description item,
                          price = price item, ID = item_id\<rparr>)))"
proof (intro conjI impI allI)
  assume "item_id \<notin> ID ` set (collection db)"
  then have "find (\<lambda>d. ID d = item_id) (collection db) = None"
    by (simp add: find_None_iff_ID)
  with ok show "fst (update_item item_id item db) = Inr (HTTP_404_NOT_FOUND, None)"
    by (simp add: handler_defs repository_defs driver_eqs)
next
  fix modified_count db2
  assume "item_id \<in> ID ` set (collection db)"
  then obtain d where d: "find (\<lambda>d. ID d = item_id) (collection db) = Some d"
    by (cases "find (\<lambda>d. ID d = item_id) (collection db)") (auto simp: find_None_iff_ID)
  assume upd: "update_one item_id item (tick db) = (Inr modified_count, db2)"
  then have ok2: "next_fault (tick db) = None"
    and n: "modified_count = snd (update_first item_id item (collection db))"
    and db2: "db2 = (tick (tick db))
                      \<lparr>collection := fst (update_first item_id item (collection db))\<rparr>"
    by (auto simp: update_one_eq split: option.splits)
  {
    assume "modified_count = 0"
    with ok ok2 d n db2
    show "update_item item_id item db = (Inr (HTTP_304_NOT_MODIFIED, None), db2)"
      by (simp add: handler_defs repository_defs driver_eqs case_prod_beta)
  next
    assume "modified_count \<noteq> 0" and "isfinite (price item)"
    with ok ok2 d n db2
    show "update_item item_id item db =
        (Inr (HTTP_200_OK,
              Some \<lparr>name = name item, description = description item,
                    price = price item, id' = item_id\<rparr>),
         db2)"
      by (simp add: handler_defs repository_defs driver_eqs case_prod_beta)
  next
    assume "modified_count \<noteq> 0" and "\<not> isfinite (price item)"
    with ok ok2 d n db2
    show "update_item item_id item db = (Inl ValueError, db2)"
      by (simp add: handler_defs repository_defs driver_eqs case_prod_beta)
  next
    have "find (\<lambda>d. ID d = item_id) (collection db2) = Some (set_fields item d)"
      using update_first_find [OF d] by (simp add: db2)
    moreover have "set_fields item d =
        \<lparr>name = name item, description = description item, price = price item,
         ID = item_id\<rparr>"
      using find_Some_ID [OF d] by (cases d) (simp add: set_fields_def)
    ultimately show "find (\<lambda>d. ID d = item_id) (collection db2) =
        Some \<lparr>name = name item, description = description item, price = price item,
              ID = item_id\<rparr>"
      by simp
  }
qed

theorem update_item_404_304_200_witness:
  "next_fault db_pen = None
   \<and> fst (update_item ''zz'' pen2 db_pen) = Inr (HTTP_404_NOT_FOUND, None)
   \<and> update_one ''a1'' pen (tick db_pen) = (Inr 0, db_pen)
   \<and> update_item ''a1'' pen db_pen = (Inr (HTTP_304_NOT_MODIFIED, None), db_pen)
   \<and> update_one ''a1'' pen2 (tick db_pen) =
       (Inr 1, \<lparr>collection = [pen_doc\<lparr>price := 0x4000000000000000\<rparr>], faults = []\<rparr>)
   \<and> isfinite (price pen2)
   \<and> update_item ''a1'' pen2 db_pen =
       (Inr (HTTP_200_OK,
             Some \<lparr>name = ''pen'', description = ''blue pen'', price = 0x4000000000000000,
                   id' = ''a1''\<rparr>),
        \<lparr>collection = [pen_doc\<lparr>price := 0x4000000000000000\<rparr>], faults = []\<rparr>)
   \<and> find (\<lambda>d. ID d = ''a1'') [pen_doc\<lparr>price := 0x4000000000000000\<rparr>] =
       Some \<lparr>name = ''pen'', description = ''blue pen'', price = 0x4000000000000000,
             ID = ''a1''\<rparr>"
proof -
  have finite: "isfinite (price pen2)"
    by (simp add: pen2_def isfinite_pen2)
  show ?thesis
    using finite
      update_item_404_304_200 [OF next_fault_db_pen, of "''zz''" pen2]
      update_item_404_304_200 [OF next_fault_db_pen, of "''a1''" pen]
      update_item_404_304_200 [OF next_fault_db_pen, of "''a1''" pen2]
    by (simp add: next_fault_db_pen collection_db_pen ID_pen_doc update_one_pen
        update_one_pen2)
       (simp add: pen2_def)
qed

text \<open>
  C9. The body of a 200 answer to an update is built from the request alone: the id is
  the path parameter and the name, description and price are those of the request
  body. The request has then made two round trips, the lookup and the write, and no
  third one to read the document back.
\<close>

theorem update_item_body_from_request:
  assumes "update_item item_id item db = (Inr (HTTP_200_OK, body), db')"
  shows "body = Some \<lparr>name = name item, description = description item,
                       price = price item, id' = item_id\<rparr>
       \<and> faults db' = tl (tl (faults db))"
  using assms
  by (auto simp: update_item_eq Item_def split: option.splits if_splits)

theorem update_item_body_from_request_witness:
  "update_item ''a1'' pen2 db_late =
     (Inr (HTTP_200_OK, Some (Item ''a1'' pen2)),
      \<lparr>collection = [pen_doc\<lparr>price := 0x4000000000000000\<rparr>],
       faults = [Some OperationFailure]\<rparr>)
   \<and> Some (Item ''a1'' pen2) =
       Some \<lparr>name = name pen2, description = description pen2, price = price pen2,
             id' = ''a1''\<rparr>
   \<and> faults \<lparr>collection = [pen_doc\<lparr>price := 0x4000000000000000\<rparr>],
              faults = [Some OperationFailure]\<rparr> =
       tl (tl (faults db_late))"
proof -
  have answered: "update_item ''a1'' pen2 db_late =
      (Inr (HTTP_200_OK, Some (Item ''a1'' pen2)),
       \<lparr>collection = [pen_doc\<lparr>price := 0x4000000000000000\<rparr>],
        faults = [Some OperationFailure]\<rparr>)"
    by (simp add: update_item_eq next_fault_def tick_def db_late_def pen_doc_def
        pen2_def set_fields_def Item_def isfinite_def)
  show ?thesis
    by (rule conjI [OF answered update_item_body_from_request [OF answered]])
qed

text \<open>
  C10. An update of an id that the collection does not hold answers 404 after the
  lookup alone: the state it leaves is the state after one round trip, so no write was
  issued. Whenever an update answers 404 the collection is as it was and one round
  trip has been made.
\<close>

theorem update_item_404_writes_nothing:
  shows "(next_fault db = None \<and> item_id \<notin> ID ` set (collection db) \<longrightarrow>
            update_item item_id item db = (Inr (HTTP_404_NOT_FOUND, None), tick db))
       \<and> (fst (update_item item_id item db) = Inr (HTTP_404_NOT_FOUND, body) \<longrightarrow>
            collection (snd (update_item item_id item db)) = collection db
          \<and> faults (snd (update_item item_id item db)) = tl (faults db))"
proof (intro conjI impI)
  assume "next_fault db = None \<and> item_id \<notin> ID ` set (collection db)"
  then have "next_fault db = None" "find (\<lambda>d. ID d = item_id) (collection db) = None"
    by (simp_all add: find_None_iff_ID)
  then show "update_item item_id item db = (Inr (HTTP_404_NOT_FOUND, None), tick db)"
    by (simp add: update_item_eq)
next
  assume "fst (update_item item_id item db) = Inr (HTTP_404_NOT_FOUND, body)"
  then have "snd (update_item item_id item db) = tick db"
    by (auto simp: update_item_eq split: option.splits if_splits)
  then show "collection (snd (update_item item_id item db)) = collection db"
    and "faults (snd (update_item item_id item db)) = tl (faults db)"
    by simp_all
qed

theorem update_item_404_writes_nothing_witness:
  "next_fault db_flaky = None \<and> ''zz'' \<notin> ID ` set (collection db_flaky)
   \<and> update_item ''zz'' pen2 db_flaky = (Inr (HTTP_404_NOT_FOUND, None), tick db_flaky)
   \<and> collection (snd (update_item ''zz'' pen2 db_flaky)) = [pen_doc]
   \<and> faults (snd (update_item ''zz'' pen2 db_flaky)) = [Some OperationFailure]"
proof -
  have hyp: "next_fault db_flaky = None \<and> ''zz'' \<notin> ID ` set (collection db_flaky)"
    by (simp add: next_fault_def db_flaky_def pen_doc_def)
  have "update_item ''zz'' pen2 db_flaky = (Inr (HTTP_404_NOT_FOUND, None), tick db_flaky)"
    using hyp update_item_404_writes_nothing
        [where db = db_flaky and item_id = "''zz''" and item = pen2]
    by blast
  then show ?thesis
    using hyp update_item_404_writes_nothing
        [where db = db_flaky and item_id = "''zz''" and item = pen2 and body = None]
    by (simp add: db_flaky_def)
qed

section \<open>The id of a stored document\<close>

text \<open>
  C6. The update sets the name, the description and the price of a document and
  nothing else, so its key is as before; an update request leaves the keys of the
  collection, position by position, as they were. Of the other operations, the two
  reads leave the collection as it is, a delete leaves it as it is or without the
  documents of the deleted id, and a create leaves it as it is or with one new
  document at the end, whose key is the generated identifier: the only place where a
  key is assigned.
\<close>

theorem id_immutable:
  shows "ID (set_fields item d) = ID d
       \<and> map ID (collection (snd (update_item item_id item db))) = map ID (collection db)
       \<and> collection (snd (get_item item_id db)) = collection db
       \<and> collection (snd (get_all_items skip limit db)) = collection db
       \<and> collection (snd (delete_item item_id db))
           \<in> {collection db, filter (\<lambda>d. ID d \<noteq> item_id) (collection db)}
       \<and> collection (snd (post_item rnd item db))
           \<in> {collection db,
              collection db @ [\<lparr>name = name item, description = description item,
                                 price = price item, ID = str_uuid (uuid4 rnd)\<rparr>]}"
proof (intro conjI)
  show "ID (set_fields item d) = ID d"
    by (simp add: set_fields_def)
  show "map ID (collection (snd (update_item item_id item db))) = map ID (collection db)"
    by (simp add: update_item_eq update_first_ids split: option.splits)
  show "collection (snd (get_item item_id db)) = collection db"
    by (simp add: get_item_eq split: option.splits)
  show "collection (snd (get_all_items skip limit db)) = collection db"
    by (simp add: get_all_items_eq split: option.splits)
  show "collection (snd (delete_item item_id db))
           \<in> {collection db, filter (\<lambda>d. ID d \<noteq> item_id) (collection db)}"
    by (simp add: delete_item_eq split: option.splits)
  show "collection (snd (post_item rnd item db))
           \<in> {collection db,
              collection db @ [\<lparr>name = name item, description = description item,
                                 price = price item, ID = str_uuid (uuid4 rnd)\<rparr>]}"
    by (simp add: post_item_eq split: option.splits)
qed

theorem id_immutable_witness:
  "ID (set_fields pen2 pen_doc) = ''a1''
   \<and> map ID (collection (snd (update_item ''a1'' pen2 db_pen))) = [''a1'']
   \<and> map ID (collection (snd (update_item ''a1'' pen2 db_down))) = [''a1'']"
  using id_immutable [where item = pen2 and d = pen_doc and item_id = "''a1''" and db = db_pen]
    id_immutable [where item = pen2 and d = pen_doc and item_id = "''a1''" and db = db_down]
  by (simp add: collection_db_pen ID_pen_doc db_down_def)

section \<open>Errors of the store\<close>

text \<open>
  C8. No operation catches or retries an error of the store. When the round trip of a
  get-one, get-all, create, update or delete raises, the operation ends with that
  error and no response, the collection is as it was, and no further round trip has
  been made. The same holds when the lookup of an update succeeds and its write
  raises, and when the store refuses a create under a key that is taken.
\<close>

theorem database_error_propagates:
  shows "(next_fault db = Some e \<longrightarrow>
            get_item item_id db = (Inl e, tick db)
          \<and> (0 \<le> skip \<and> 0 \<le> limit \<longrightarrow>
                get_all_items (Some skip) (Some limit) db = (Inl e, tick db))
          \<and> get_all_items None None db = (Inl e, tick db)
          \<and> post_item rnd item db = (Inl e, tick db)
          \<and> update_item item_id item db = (Inl e, tick db)
          \<and> delete_item item_id db = (Inl e, tick db))
       \<and> (next_fault db = None \<and> item_id \<in> ID ` set (collection db)
            \<and> next_fault (tick db) = Some e \<longrightarrow>
            update_item item_id item db = (Inl e, tick (tick db)))
       \<and> (next_fault db = None \<and> str_uuid (uuid4 rnd) \<in> ID ` set (collection db) \<longrightarrow>
            post_item rnd item db = (Inl DuplicateKeyError, tick db))"
proof (intro conjI impI)
  assume "next_fault db = None \<and> item_id \<in> ID ` set (collection db)
            \<and> next_fault (tick db) = Some e"
  moreover from this obtain d where "find (\<lambda>d. ID d = item_id) (collection db) = Some d"
    by (cases "find (\<lambda>d. ID d = item_id) (collection db)") (auto simp: find_None_iff_ID)
  ultimately show "update_item item_id item db = (Inl e, tick (tick db))"
    by (simp add: update_item_eq)
qed (simp_all add: get_item_eq get_all_items_eq post_item_eq update_item_eq delete_item_eq
      with_default_def)

theorem database_error_propagates_witness:
  "next_fault db_down = Some ConnectionFailure
   \<and> get_item ''a1'' db_down = (Inl ConnectionFailure, tick db_down)
   \<and> get_all_items (Some 0) (Some 100) db_down = (Inl ConnectionFailure, tick db_down)
   \<and> get_all_items None None db_down = (Inl ConnectionFailure, tick db_down)
   \<and> post_item 5 pen db_down = (Inl ConnectionFailure, tick db_down)
   \<and> update_item ''a1'' pen2 db_down = (Inl ConnectionFailure, tick db_down)
   \<and> delete_item ''a1'' db_down = (Inl ConnectionFailure, tick db_down)
   \<and> collection (tick db_down) = [pen_doc] \<and> faults (tick db_down) = []
   \<and> next_fault db_flaky = None \<and> ''a1'' \<in> ID ` set (collection db_flaky)
   \<and> next_fault (tick db_flaky) = Some OperationFailure
   \<and> update_item ''a1'' pen2 db_flaky = (Inl OperationFailure, tick (tick db_flaky))
   \<and> collection (tick (tick db_flaky)) = [pen_doc]
   \<and> next_fault db_zero = None \<and> str_uuid (uuid4 0) \<in> ID ` set (collection db_zero)
   \<and> post_item 0 pen db_zero = (Inl DuplicateKeyError, tick db_zero)"
proof -
  have down: "next_fault db_down = Some ConnectionFailure"
    by (simp add: next_fault_def db_down_def)
  have flaky: "next_fault db_flaky = None \<and> ''a1'' \<in> ID ` set (collection db_flaky)
      \<and> next_fault (tick db_flaky) = Some OperationFailure"
    by (simp add: next_fault_def tick_def db_flaky_def pen_doc_def)
  have zero: "next_fault db_zero = None
      \<and> str_uuid (uuid4 0) \<in> ID ` set (collection db_zero)"
    by (simp add: next_fault_def db_zero_def str_uuid_zero)
  have rest: "collection (tick db_down) = [pen_doc] \<and> faults (tick db_down) = []
      \<and> collection (tick (tick db_flaky)) = [pen_doc]"
    by (simp add: db_down_def db_flaky_def)
  show ?thesis
    using down flaky zero rest
      database_error_propagates
        [where db = db_down and e = ConnectionFailure and item_id = "''a1''"
           and skip = 0 and limit = 100 and rnd = 5 and item = pen]
      database_error_propagates
        [where db = db_down and e = ConnectionFailure and item_id = "''a1''"
           and item = pen2]
      database_error_propagates
        [where db = db_flaky and e = OperationFailure and item_id = "''a1''"
           and item = pen2]
      database_error_propagates [where db = db_zero and rnd = 0 and item = pen]
    by simp
qed

end
